theory Spec2Isabelle
  imports Complex_Main "HOL-Library.Word"
begin

unbundle bit_operations_syntax

section \<open>The audio recorder of windows-whisper (src/src/audio.py)\<close>

text \<open>
  The class \<open>AudioRecorder\<close> records microphone audio through PyAudio, meters the
  loudness of frames with numpy and writes the frames with the \<open>wave\<close> module.
  The embedding follows the methods of the class one by one. Calls of \<open>logger\<close> have no
  effect on the recorder and are left out.
\<close>

subsection \<open>Bytes, exceptions and numpy scalars\<close>

type_synonym byte = "8 word"
type_synonym bytes = "byte list"
type_synonym int16 = "16 word"

text \<open>The exceptions the methods catch with \<open>except Exception\<close>.\<close>

datatype exn = IOError | ValueError | WaveError | CallbackError | RuntimeError

text \<open>
  A numpy \<open>float64\<close> scalar as far as \<open>_calculate_audio_level\<close> meets it: a finite value
  or \<open>nan\<close>. Finite values are real numbers; rounding is not modelled. numpy's default
  error handling is assumed, where an invalid operation warns and yields \<open>nan\<close>.
\<close>

datatype float64 = NaN | Finite real

subsection \<open>\<open>_calculate_audio_level\<close>\<close>

text \<open>
  \<open>np.frombuffer(data, dtype=np.int16)\<close>: consecutive byte pairs, low byte first; a buffer
  whose size is not a multiple of two raises \<open>ValueError\<close>.
\<close>

fun frombuffer_int16 :: "bytes \<Rightarrow> exn + int16 list" where
  "frombuffer_int16 [] = Inr []"
| "frombuffer_int16 [b] = Inl ValueError"
| "frombuffer_int16 (lo # hi # bs) =
     (case frombuffer_int16 bs of
        Inl e \<Rightarrow> Inl e
      | Inr ws \<Rightarrow> Inr ((push_bit 8 (ucast hi) OR ucast lo) # ws))"

text \<open>
  \<open>np.square\<close> on an \<open>int16\<close> array yields an \<open>int16\<close> array: each product is
  taken modulo \<open>2 ^ 16\<close>.
\<close>

definition np_square :: "int16 list \<Rightarrow> int16 list" where
  "np_square xs = map (\<lambda>x. x * x) xs"

text \<open>
  \<open>np.mean\<close> of an integer array accumulates the signed values in \<open>float64\<close>; the mean of an
  empty array is \<open>nan\<close>.
\<close>

definition np_mean :: "int16 list \<Rightarrow> float64" where
  "np_mean xs =
     (if xs = [] then NaN
      else Finite (real_of_int (sum_list (map sint xs)) / real (length xs)))"

definition np_sqrt :: "float64 \<Rightarrow> float64" where
  "np_sqrt x = (case x of NaN \<Rightarrow> NaN | Finite r \<Rightarrow> if r < 0 then NaN else Finite (sqrt r))"

text \<open>\<open>rms < noise_threshold\<close>: every comparison with \<open>nan\<close> is false.\<close>

definition fl_less :: "float64 \<Rightarrow> real \<Rightarrow> bool" where
  "fl_less x c = (case x of NaN \<Rightarrow> False | Finite r \<Rightarrow> r < c)"

text \<open>\<open>(rms - noise_threshold) / (32768.0 - noise_threshold)\<close>\<close>

definition fl_rescale :: "float64 \<Rightarrow> real \<Rightarrow> float64" where
  "fl_rescale x c = (case x of NaN \<Rightarrow> NaN | Finite r \<Rightarrow> Finite ((r - c) / (32768 - c)))"

text \<open>
  Python's \<open>min(1.0, y)\<close> keeps its first argument unless \<open>y < 1.0\<close> holds, so
  \<open>min(1.0, nan)\<close> is \<open>1.0\<close>.
\<close>

definition py_min :: "real \<Rightarrow> float64 \<Rightarrow> real" where
  "py_min a y = (case y of NaN \<Rightarrow> a | Finite r \<Rightarrow> if r < a then r else a)"

definition noise_threshold :: real where
  "noise_threshold = 300"

definition rms_of :: "int16 list \<Rightarrow> float64" where
  "rms_of audio_data = np_sqrt (np_mean (np_square audio_data))"

text \<open>Lines 276 to 286: from the value of \<open>rms\<close> to the level.\<close>

definition level_of_rms :: "float64 \<Rightarrow> real" where
  "level_of_rms rms =
     (if fl_less rms noise_threshold then 0
      else (py_min 1 (fl_rescale rms noise_threshold)) powr 0.7)"

definition calculate_audio_level :: "bytes \<Rightarrow> real" where
  "calculate_audio_level data =
     (case frombuffer_int16 data of
        Inl e \<Rightarrow> 0
      | Inr audio_data \<Rightarrow> level_of_rms (rms_of audio_data))"

text \<open>
  What the specification calls the RMS amplitude of a frame: the root of the mean of the
  squares of its signed 16-bit samples, the squares taken as integers. This definition
  follows the specification's words, not the source.
\<close>

definition rms_amplitude :: "int16 list \<Rightarrow> real" where
  "rms_amplitude xs = sqrt (real_of_int (sum_list (map (\<lambda>x. sint x * sint x) xs)) / real (length xs))"

definition spec_level :: "bytes \<Rightarrow> real" where
  "spec_level data =
     (case frombuffer_int16 data of
        Inl e \<Rightarrow> 0
      | Inr xs \<Rightarrow>
          (if rms_amplitude xs < 300 then 0
           else (min 1 ((rms_amplitude xs - 300) / (32768 - 300))) powr 0.7))"

subsection \<open>The recorder and the world around it\<close>

text \<open>
  A caller-supplied callable is modelled by what a call of it does. A stream and a thread
  are named by a number.
\<close>

datatype pa_handle = PyAudio

datatype callback = Returns | Raises

record recorder =
  sample_rate :: int
  channels :: int
  chunk :: int
  pyaudio :: "pa_handle option"
  stream :: "nat option"
  frames :: "bytes list"
  is_recording :: bool
  recording_thread :: "nat option"
  max_seconds :: int
  level_callback :: "callback option"

text \<open>
  The world outside the object: the input streams that are open in the audio subsystem, the
  threads that were started and have not run yet, the calls that reached the device and the
  callbacks, and the files.
\<close>

datatype event =
    Opened nat | ReadFrom nat | Stopped nat | Closed nat
  | StartedCallback | LevelCallback real | ThreadStarted nat

record wav =
  nchannels :: int
  sampwidth :: int
  framerate :: int
  payload :: bytes

datatype file_content = Unfinished | WavFile wav

record world =
  open_streams :: "nat list"
  next_stream :: nat
  live_threads :: "nat list"
  next_thread :: nat
  trace :: "event list"
  files :: "string \<rightharpoonup> file_content"

text \<open>
  A statement either returns a value or raises; both leave a state behind.
\<close>

datatype ('a, 's) res = Ret 'a 's | Exc exn 's

fun res_state :: "('a, 's) res \<Rightarrow> 's" where
  "res_state (Ret a s) = s"
| "res_state (Exc e s) = s"

text \<open>
  What the library calls of one method call do is given from outside: whether
  \<open>pyaudio.PyAudio()\<close>, \<open>PyAudio.open\<close>, \<open>Stream.stop_stream\<close>, \<open>Stream.close\<close> and
  \<open>Thread.start\<close> return or raise, and the bytes \<open>Stream.read\<close> returns (\<open>None\<close>: it raises).
\<close>

record outcomes =
  init_ok :: bool
  open_ok :: bool
  read_result :: "bytes option"
  stop_ok :: bool
  close_ok :: bool
  thread_ok :: bool

definition new_PyAudio :: "bool \<Rightarrow> world \<Rightarrow> (pa_handle, world) res" where
  "new_PyAudio ok w = (if ok then Ret PyAudio w else Exc IOError w)"

definition pa_open :: "bool \<Rightarrow> world \<Rightarrow> (nat, world) res" where
  "pa_open ok w =
     (if ok then
        Ret (next_stream w)
          (w\<lparr>open_streams := next_stream w # open_streams w,
             next_stream := Suc (next_stream w),
             trace := trace w @ [Opened (next_stream w)]\<rparr>)
      else Exc IOError w)"

definition stream_read :: "bytes option \<Rightarrow> nat \<Rightarrow> world \<Rightarrow> (bytes, world) res" where
  "stream_read result h w =
     (case result of
        None \<Rightarrow> Exc IOError w
      | Some d \<Rightarrow> Ret d (w\<lparr>trace := trace w @ [ReadFrom h]\<rparr>))"

definition stop_stream :: "bool \<Rightarrow> nat \<Rightarrow> world \<Rightarrow> (unit, world) res" where
  "stop_stream ok h w =
     (if ok then Ret () (w\<lparr>trace := trace w @ [Stopped h]\<rparr>) else Exc IOError w)"

definition close_stream :: "bool \<Rightarrow> nat \<Rightarrow> world \<Rightarrow> (unit, world) res" where
  "close_stream ok h w =
     (if ok then
        Ret () (w\<lparr>open_streams := removeAll h (open_streams w),
                  trace := trace w @ [Closed h]\<rparr>)
      else Exc IOError w)"

definition thread_start :: "bool \<Rightarrow> nat \<Rightarrow> world \<Rightarrow> (unit, world) res" where
  "thread_start ok t w =
     (if ok then
        Ret () (w\<lparr>live_threads := live_threads w @ [t],
                  trace := trace w @ [ThreadStarted t]\<rparr>)
      else Exc RuntimeError w)"

text \<open>\<open>if callback_fn: callback_fn()\<close>\<close>

definition call_started :: "callback option \<Rightarrow> world \<Rightarrow> (unit, world) res" where
  "call_started callback_fn w =
     (case callback_fn of
        None \<Rightarrow> Ret () w
      | Some Returns \<Rightarrow> Ret () (w\<lparr>trace := trace w @ [StartedCallback]\<rparr>)
      | Some Raises \<Rightarrow> Exc CallbackError w)"

text \<open>\<open>self.level_callback(level)\<close>\<close>

definition call_level :: "callback \<Rightarrow> real \<Rightarrow> world \<Rightarrow> (unit, world) res" where
  "call_level cb level w =
     (case cb of
        Returns \<Rightarrow> Ret () (w\<lparr>trace := trace w @ [LevelCallback level]\<rparr>)
      | Raises \<Rightarrow> Exc CallbackError w)"

subsection \<open>\<open>__init__\<close> and \<open>pre_initialize\<close>\<close>

definition AudioRecorder :: "int \<Rightarrow> int \<Rightarrow> int \<Rightarrow> bool \<Rightarrow> recorder" where
  "AudioRecorder rate chans ck pa_ok =
     \<lparr>sample_rate = rate, channels = chans, chunk = ck,
      pyaudio = (if pa_ok then Some PyAudio else None),
      stream = None, frames = [], is_recording = False, recording_thread = None,
      max_seconds = 300, level_callback = None\<rparr>"

text \<open>Lines 60 to 75, the body of the second \<open>try\<close> of \<open>pre_initialize\<close>.\<close>

definition test_stream :: "world \<Rightarrow> outcomes \<Rightarrow> (bool, world) res" where
  "test_stream w oc =
     (case pa_open (open_ok oc) w of
        Exc e w1 \<Rightarrow> Exc e w1
      | Ret h w1 \<Rightarrow>
          (case stream_read (read_result oc) h w1 of
             Exc e w2 \<Rightarrow> Exc e w2
           | Ret d w2 \<Rightarrow>
               (case stop_stream (stop_ok oc) h w2 of
                  Exc e w3 \<Rightarrow> Exc e w3
                | Ret u w3 \<Rightarrow>
                    (case close_stream (close_ok oc) h w3 of
                       Exc e w4 \<Rightarrow> Exc e w4
                     | Ret u' w4 \<Rightarrow> Ret True w4))))"

definition pre_initialize :: "recorder \<Rightarrow> world \<Rightarrow> outcomes \<Rightarrow> (bool, recorder \<times> world) res" where
  "pre_initialize r w oc =
     (case (if pyaudio r = None then new_PyAudio (init_ok oc) w else Ret PyAudio w) of
        Exc e w0 \<Rightarrow> Ret False (r, w0)
      | Ret pa w0 \<Rightarrow>
          (case test_stream w0 oc of
             Exc e w1 \<Rightarrow> Ret False (r\<lparr>pyaudio := Some pa\<rparr>, w1)
           | Ret b w1 \<Rightarrow> Ret b (r\<lparr>pyaudio := Some pa\<rparr>, w1)))"

subsection \<open>\<open>start_recording\<close>\<close>

text \<open>Lines 115 to 139, the body of the second \<open>try\<close> of \<open>start_recording\<close>.\<close>

definition open_and_spawn ::
  "recorder \<Rightarrow> world \<Rightarrow> callback option \<Rightarrow> outcomes \<Rightarrow> (bool, recorder \<times> world) res" where
  "open_and_spawn r w callback_fn oc =
     (case pa_open (open_ok oc) w of
        Exc e w1 \<Rightarrow> Exc e (r, w1)
      | Ret h w1 \<Rightarrow>
          (let r1 = r\<lparr>stream := Some h\<rparr> in
           case call_started callback_fn w1 of
             Exc e w2 \<Rightarrow> Exc e (r1, w2)
           | Ret u w2 \<Rightarrow>
               (let t = next_thread w2;
                    r2 = r1\<lparr>recording_thread := Some t\<rparr>;
                    w3 = w2\<lparr>next_thread := Suc t\<rparr>
                in case thread_start (thread_ok oc) t w3 of
                     Exc e w4 \<Rightarrow> Exc e (r2, w4)
                   | Ret u' w4 \<Rightarrow> Ret True (r2, w4))))"

definition start_recording ::
  "recorder \<Rightarrow> world \<Rightarrow> int option \<Rightarrow> callback option \<Rightarrow> callback option \<Rightarrow> outcomes
     \<Rightarrow> (bool, recorder \<times> world) res" where
  "start_recording r w max_secs callback_fn level_cb oc =
     (if is_recording r then Ret False (r, w)
      else
        (let r1 = (case max_secs of
                     None \<Rightarrow> r
                   | Some n \<Rightarrow> if n \<noteq> 0 then r\<lparr>max_seconds := n\<rparr> else r);
             r2 = r1\<lparr>level_callback := level_cb, frames := [], is_recording := True\<rparr>
         in case (if pyaudio r2 = None then new_PyAudio (init_ok oc) w else Ret PyAudio w) of
              Exc e w0 \<Rightarrow> Ret False (r2\<lparr>is_recording := False\<rparr>, w0)
            | Ret pa w0 \<Rightarrow>
                (case open_and_spawn (r2\<lparr>pyaudio := Some pa\<rparr>) w0 callback_fn oc of
                   Exc e (r3, w3) \<Rightarrow> Ret False (r3\<lparr>is_recording := False\<rparr>, w3)
                 | Ret b (r3, w3) \<Rightarrow> Ret b (r3, w3))))"

subsection \<open>\<open>_record\<close>, the body of the recording thread\<close>

text \<open>
  One pass of the \<open>while\<close> loop meets three things from outside: whether a concurrent
  \<open>stop_recording\<close> has cleared \<open>is_recording\<close> before the loop test, the value of
  \<open>time.time() - start_time\<close>, and what \<open>Stream.read\<close> does. The list of these is the
  schedule of the thread; when it is used up while the loop still runs, the thread has not
  ended and the result is \<open>None\<close>.
\<close>

record tick =
  flag_cleared :: bool
  elapsed :: real
  read_data :: "bytes option"

text \<open>\<open>self.stream.read(self.chunk, exception_on_overflow=False)\<close>\<close>

definition read_chunk :: "recorder \<Rightarrow> bytes option \<Rightarrow> world \<Rightarrow> (bytes, world) res" where
  "read_chunk r result w =
     (case stream r of
        None \<Rightarrow> Exc RuntimeError w
      | Some h \<Rightarrow> stream_read result h w)"

text \<open>Lines 168 to 188. Leaving the loop by \<open>break\<close> or by its test gives \<open>Some\<close>.\<close>

fun record_loop :: "recorder \<Rightarrow> world \<Rightarrow> nat \<Rightarrow> tick list \<Rightarrow> (recorder \<times> world) option" where
  "record_loop r w frame_count [] = None"
| "record_loop r w frame_count (t # ts) =
     (let r0 = (if flag_cleared t then r\<lparr>is_recording := False\<rparr> else r) in
      if \<not> is_recording r0 then Some (r0, w)
      else if elapsed t > real_of_int (max_seconds r0) then Some (r0, w)
      else
        (case read_chunk r0 (read_data t) w of
           Exc e w1 \<Rightarrow> Some (r0, w1)
         | Ret d w1 \<Rightarrow>
             (let r1 = r0\<lparr>frames := frames r0 @ [d]\<rparr>;
                  fc = frame_count + 1
              in case (case level_callback r1 of
                         None \<Rightarrow> Ret () w1
                       | Some cb \<Rightarrow>
                           if fc mod 2 = 0 then call_level cb (calculate_audio_level d) w1
                           else Ret () w1) of
                   Exc e w2 \<Rightarrow> Some (r1, w2)
                 | Ret u w2 \<Rightarrow> record_loop r1 w2 fc ts)))"

text \<open>
  \<open>_record\<close>: the test of \<open>self.stream\<close>, the first read, the loop, and the \<open>finally\<close>
  clause that clears the flag. No path of it closes the stream.
\<close>

definition record_thread ::
  "recorder \<Rightarrow> world \<Rightarrow> bytes option \<Rightarrow> tick list \<Rightarrow> (recorder \<times> world) option" where
  "record_thread r w first ts =
     (case stream r of
        None \<Rightarrow> Some (r\<lparr>is_recording := False\<rparr>, w)
      | Some h \<Rightarrow>
          (case read_chunk r first w of
             Exc e w1 \<Rightarrow> Some (r\<lparr>is_recording := False\<rparr>, w1)
           | Ret d w1 \<Rightarrow>
               (case record_loop (r\<lparr>frames := frames r @ [d]\<rparr>) w1 0 ts of
                  None \<Rightarrow> None
                | Some (r2, w2) \<Rightarrow> Some (r2\<lparr>is_recording := False\<rparr>, w2))))"

subsection \<open>\<open>stop_recording\<close>\<close>

text \<open>Lines 208 to 217: one more read when no frame has been captured.\<close>

definition extra_read :: "recorder \<Rightarrow> world \<Rightarrow> outcomes \<Rightarrow> recorder \<times> world" where
  "extra_read r w oc =
     (if frames r = [] then
        (if stream r \<noteq> None \<and> is_recording r then
           (case read_chunk r (read_result oc) w of
              Exc e w1 \<Rightarrow> (r, w1)
            | Ret d w1 \<Rightarrow> (r\<lparr>frames := frames r @ [d]\<rparr>, w1))
         else (r, w))
      else (r, w))"

text \<open>
  The call \<open>join(timeout=1.0)\<close> waits for the thread and changes nothing; the thread's own
  steps are those of \<open>record_thread\<close>.
\<close>

definition stop_recording :: "recorder \<Rightarrow> world \<Rightarrow> outcomes \<Rightarrow> (bool, recorder \<times> world) res" where
  "stop_recording r w oc =
     (if \<not> is_recording r then Ret False (r, w)
      else
        (case extra_read r w oc of
           (r1, w1) \<Rightarrow>
             (let r2 = r1\<lparr>is_recording := False\<rparr> in
              case stream r2 of
                None \<Rightarrow> Ret True (r2, w1)
              | Some h \<Rightarrow>
                  (case stop_stream (stop_ok oc) h w1 of
                     Exc e w2 \<Rightarrow> Ret True (r2, w2)
                   | Ret u w2 \<Rightarrow>
                       (case close_stream (close_ok oc) h w2 of
                          Exc e w3 \<Rightarrow> Ret True (r2, w3)
                        | Ret u' w3 \<Rightarrow> Ret True (r2\<lparr>stream := None\<rparr>, w3))))))"

subsection \<open>\<open>save_wav\<close>\<close>

text \<open>
  The \<open>wave\<close> module, as far as \<open>save_wav\<close> uses it. \<open>wave.open(path, 'wb')\<close> creates or
  truncates the file; \<open>setnchannels\<close> raises for a channel count below one and
  \<open>setframerate\<close> for a rate that is not positive; \<open>writeframes\<close> writes the header and
  the bytes it is given; \<open>close\<close> completes the file. Whether opening, writing and
  closing succeed is given from outside. A call that raises leaves a file that is not a
  complete WAV file.
\<close>

record wave_outcomes =
  wave_open_ok :: bool
  wave_write_ok :: bool
  wave_close_ok :: bool

text \<open>Lines 251 to 256, the body of the \<open>try\<close> of \<open>save_wav\<close>.\<close>

definition write_wav :: "recorder \<Rightarrow> world \<Rightarrow> string \<Rightarrow> wave_outcomes \<Rightarrow> (bool, world) res" where
  "write_wav r w file_path wo =
     (if \<not> wave_open_ok wo then Exc IOError w
      else
        (let w1 = w\<lparr>files := (files w)(file_path \<mapsto> Unfinished)\<rparr> in
         if channels r < 1 then Exc WaveError w1
         else if sample_rate r \<le> 0 then Exc WaveError w1
         else if \<not> wave_write_ok wo then Exc IOError w1
         else if \<not> wave_close_ok wo then Exc IOError w1
         else
           Ret True
             (w\<lparr>files := (files w)(file_path \<mapsto>
                  WavFile \<lparr>nchannels = channels r, sampwidth = 2,
                           framerate = sample_rate r, payload = concat (frames r)\<rparr>)\<rparr>)))"

definition save_wav :: "recorder \<Rightarrow> world \<Rightarrow> string \<Rightarrow> wave_outcomes \<Rightarrow> (bool, recorder \<times> world) res" where
  "save_wav r w file_path wo =
     (if frames r = [] then Ret False (r, w)
      else
        (case write_wav r w file_path wo of
           Exc e w1 \<Rightarrow> Ret False (r, w1)
         | Ret b w1 \<Rightarrow> Ret b (r, w1)))"

subsection \<open>Sequences of calls\<close>

text \<open>
  The caller starts and stops recordings; between its calls the recording thread may run
  to its end. A thread runs only if it was started and has not run yet.
\<close>

datatype action =
    Start "int option" "callback option" "callback option" outcomes
  | Stop outcomes
  | ThreadRuns "bytes option" "tick list"

fun do_action :: "recorder \<times> world \<Rightarrow> action \<Rightarrow> recorder \<times> world" where
  "do_action (r, w) (Start max_secs callback_fn level_cb oc) =
     res_state (start_recording r w max_secs callback_fn level_cb oc)"
| "do_action (r, w) (Stop oc) = res_state (stop_recording r w oc)"
| "do_action (r, w) (ThreadRuns first ts) =
     (case live_threads w of
        [] \<Rightarrow> (r, w)
      | t # rest \<Rightarrow>
          (case record_thread r (w\<lparr>live_threads := rest\<rparr>) first ts of
             None \<Rightarrow> (r, w)
           | Some (r1, w1) \<Rightarrow> (r1, w1)))"

definition run :: "recorder \<times> world \<Rightarrow> action list \<Rightarrow> recorder \<times> world" where
  "run s acts = foldl do_action s acts"

definition empty_world :: world where
  "empty_world =
     \<lparr>open_streams = [], next_stream = 0, live_threads = [], next_thread = 0,
      trace = [], files = Map.empty\<rparr>"

definition all_ok :: outcomes where
  "all_ok =
     \<lparr>init_ok = True, open_ok = True, read_result = Some [0, 0], stop_ok = True,
      close_ok = True, thread_ok = True\<rparr>"

subsection \<open>Inputs used below\<close>

text \<open>A frame of \<open>n\<close> equal samples, each with low byte \<open>lo\<close> and high byte \<open>hi\<close>.\<close>

definition constant_frame :: "nat \<Rightarrow> byte \<Rightarrow> byte \<Rightarrow> bytes" where
  "constant_frame n lo hi = concat (replicate n [lo, hi])"

definition rec0 :: recorder where
  "rec0 = AudioRecorder 16000 1 1024 True"

definition no_device :: outcomes where
  "no_device = all_ok\<lparr>open_ok := False\<rparr>"

definition wave_ok :: wave_outcomes where
  "wave_ok = \<lparr>wave_open_ok = True, wave_write_ok = True, wave_close_ok = True\<rparr>"

text \<open>
  A recording with a limit of one second whose thread leaves the loop after 1.5 seconds;
  the caller's \<open>stop_recording\<close> then finds the flag cleared; the caller starts again.
\<close>

definition leak_by_duration :: "action list" where
  "leak_by_duration =
     [Start (Some 1) None None all_ok,
      ThreadRuns (Some [0, 0]) [\<lparr>flag_cleared = False, elapsed = 1.5, read_data = Some [0, 0]\<rparr>],
      Stop all_ok,
      Start None None None all_ok]"

text \<open>A recording whose thread leaves the loop on a failed read; the caller starts again.\<close>

definition leak_by_read_error :: "action list" where
  "leak_by_read_error =
     [Start None None None all_ok,
      ThreadRuns (Some [0, 0]) [\<lparr>flag_cleared = False, elapsed = 0.1, read_data = None\<rparr>],
      Start None None None all_ok]"




text \<open>The recording flag is set only while the recorder holds a stream that is open.\<close>

definition flag_has_stream :: "recorder \<times> world \<Rightarrow> bool" where
  "flag_has_stream s =
     (is_recording (fst s) \<longrightarrow> (\<exists>h. stream (fst s) = Some h \<and> h \<in> set (open_streams (snd s))))"

section \<open>Properties\<close>

lemmas level_defs = calculate_audio_level_def level_of_rms_def rms_of_def np_sqrt_def
  np_mean_def np_square_def fl_less_def noise_threshold_def fl_rescale_def py_min_def

lemmas dev_defs = new_PyAudio_def pa_open_def stream_read_def stop_stream_def close_stream_def
  thread_start_def call_started_def call_level_def read_chunk_def

subsection \<open>The level meter\<close>

lemma frombuffer_constant_frame:
  "frombuffer_int16 (constant_frame n lo hi) = Inr (replicate n (push_bit 8 (ucast hi) OR ucast lo))"
  by (induction n) (simp_all add: constant_frame_def)

lemma rms_of_replicate:
  assumes "0 < n"
  shows "rms_of (replicate n s) = np_sqrt (Finite (real_of_int (sint (s * s))))"
  using assms by (simp add: rms_of_def np_mean_def np_square_def sum_list_replicate)

lemma rms_amplitude_replicate:
  assumes "0 < n"
  shows "rms_amplitude (replicate n s) = \<bar>real_of_int (sint s)\<bar>"
proof -
  have "real_of_int (sum_list (map (\<lambda>x. sint x * sint x) (replicate n s))) / real n
          = real_of_int (sint s) * real_of_int (sint s)"
    using assms by (simp add: sum_list_replicate)
  then show ?thesis
    by (simp add: rms_amplitude_def)
qed

lemma sqrt_16960: "sqrt 16960 < 300"
  by (rule real_less_lsqrt) simp_all

text \<open>A frame of 1024 samples of value 1000 (bytes \<open>E8 03\<close>) is metered as silence.\<close>

lemma level_1000: "calculate_audio_level (constant_frame 1024 0xE8 0x03) = 0"
  using sqrt_16960
  by (simp add: calculate_audio_level_def frombuffer_constant_frame rms_of_replicate
        level_of_rms_def np_sqrt_def fl_less_def noise_threshold_def)

text \<open>
  The mean of the wrapped squares is at most 32767, so a finite \<open>rms\<close> is below 182 and
  never reaches the noise threshold. The source therefore returns only 0.0 (finite \<open>rms\<close>,
  or a buffer it cannot read) and 1.0 (\<open>rms\<close> is \<open>nan\<close>).
\<close>

lemma sum_sint_bound: "sum_list (map sint (xs :: int16 list)) \<le> 32767 * int (length xs)"
proof (induction xs)
  case Nil
  then show ?case by simp
next
  case (Cons x xs)
  have "sint x < 2 ^ 15"
    using sint_lt [of x] by simp
  then show ?case using Cons by (simp add: algebra_simps)
qed

lemma rms_of_below_floor:
  assumes "rms_of xs = Finite x"
  shows "x < 300"
proof -
  let ?m = "real_of_int (sum_list (map sint (np_square xs))) / real (length xs)"
  from assms have ne: "xs \<noteq> []" and nn: "0 \<le> ?m" and x: "x = sqrt ?m"
    by (auto simp: rms_of_def np_sqrt_def np_mean_def np_square_def split: if_splits)
  have "sum_list (map sint (np_square xs)) \<le> 32767 * int (length (np_square xs))"
    by (rule sum_sint_bound)
  then have "real_of_int (sum_list (map sint (np_square xs))) \<le> 32767 * real (length xs)"
    by (simp add: np_square_def of_int_le_iff [symmetric, where 'a = real] del: of_int_le_iff)
  then have "?m \<le> 32767"
    using ne by (simp add: divide_le_eq)
  then have "sqrt ?m \<le> sqrt 32767"
    by simp
  also have "sqrt 32767 < 300"
    by (rule real_less_lsqrt) simp_all
  finally show ?thesis using x by simp
qed

lemma level_zero_or_one:
  "calculate_audio_level data = 0 \<or> calculate_audio_level data = 1"
proof (cases "frombuffer_int16 data")
  case (Inl e)
  then show ?thesis by (simp add: calculate_audio_level_def)
next
  case (Inr xs)
  show ?thesis
  proof (cases "rms_of xs")
    case NaN
    then show ?thesis using Inr
      by (simp add: calculate_audio_level_def level_of_rms_def fl_less_def fl_rescale_def py_min_def)
  next
    case (Finite x)
    then have "x < 300" by (rule rms_of_below_floor)
    then show ?thesis using Inr Finite
      by (simp add: calculate_audio_level_def level_of_rms_def fl_less_def noise_threshold_def)
  qed
qed

text \<open>The part of C2 about silence holds for every frame that has at least one sample.\<close>

lemma zero_frame_level:
  assumes "0 < n"
  shows "calculate_audio_level (constant_frame n 0 0) = 0"
  using assms
  by (simp add: calculate_audio_level_def frombuffer_constant_frame rms_of_replicate
        level_of_rms_def np_sqrt_def fl_less_def noise_threshold_def)

text \<open>An empty buffer has mean \<open>nan\<close> and is metered as full level.\<close>

lemma empty_frame_level: "calculate_audio_level [] = 1"
  by (simp add: level_defs)

text \<open>
  Claim C2: a frame whose samples are all zero has level exactly 0.0, and a frame whose
  samples are all at maximum amplitude has level exactly 1.0.

  The source does not do the second. \<open>np.square\<close> keeps the element type \<open>int16\<close>, so
  the square of 32767 wraps to 1 and the square of -32768 wraps to 0; the mean is 1 or 0, the
  root is below the noise threshold and the level is 0.0. The frames below hold 1024 samples,
  the default chunk.
\<close>

theorem max_amplitude_level_is_zero:
  "frombuffer_int16 (constant_frame 1024 0xFF 0x7F) = Inr (replicate 1024 32767)
   \<and> sint (32767 :: int16) = 32767
   \<and> np_square [32767] = [1]
   \<and> calculate_audio_level (constant_frame 1024 0xFF 0x7F) = 0
   \<and> frombuffer_int16 (constant_frame 1024 0x00 0x80) = Inr (replicate 1024 (- 32768))
   \<and> sint (- 32768 :: int16) = - 32768
   \<and> np_square [- 32768] = [0]
   \<and> calculate_audio_level (constant_frame 1024 0x00 0x80) = 0"
  by (simp add: calculate_audio_level_def frombuffer_constant_frame rms_of_replicate
        level_of_rms_def np_sqrt_def np_square_def fl_less_def noise_threshold_def)

text \<open>
  Claim C4: the level of a frame is 0.0 when the RMS amplitude of its signed 16-bit
  little-endian samples is below 300, and otherwise \<open>min(1.0, (RMS - 300) / (32768 - 300))\<close>
  to the power 0.7. \<open>spec_level\<close> is this function.

  The source differs from it: for 1024 samples of value 1000 the RMS amplitude is 1000 and
  the claimed level is positive, while the source computes the root of the wrapped square
  16960 and returns 0.0.
\<close>

theorem level_differs_from_spec:
  "frombuffer_int16 (constant_frame 1024 0xE8 0x03) = Inr (replicate 1024 1000)
   \<and> rms_amplitude (replicate 1024 1000) = 1000
   \<and> spec_level (constant_frame 1024 0xE8 0x03) = (700 / 32468) powr 0.7
   \<and> calculate_audio_level (constant_frame 1024 0xE8 0x03) = 0
   \<and> calculate_audio_level (constant_frame 1024 0xE8 0x03)
       \<noteq> spec_level (constant_frame 1024 0xE8 0x03)"
proof -
  have a: "rms_amplitude (replicate 1024 1000) = 1000"
    by (simp add: rms_amplitude_replicate)
  have b: "spec_level (constant_frame 1024 0xE8 0x03) = (700 / 32468) powr 0.7"
    by (simp add: spec_level_def frombuffer_constant_frame rms_amplitude_replicate)
  have c: "(700 / 32468 :: real) powr 0.7 \<noteq> 0"
    by simp
  show ?thesis
    using a b c level_1000 by (simp add: frombuffer_constant_frame)
qed

text \<open>
  Claim C5: of two frames with RMS amplitude above the noise floor, the one with the smaller
  RMS amplitude has the smaller or equal level.

  The source does not keep this order: 1024 samples of value 320 have RMS amplitude 320 and
  level 1.0 (the square wraps to a negative number, its root is \<open>nan\<close>), while 1024 samples
  of value 1000 have RMS amplitude 1000 and level 0.0.
\<close>

theorem level_not_monotone:
  "rms_amplitude (replicate 1024 320) = 320
   \<and> rms_amplitude (replicate 1024 1000) = 1000
   \<and> 300 \<le> rms_amplitude (replicate 1024 320)
   \<and> rms_amplitude (replicate 1024 320) \<le> rms_amplitude (replicate 1024 1000)
   \<and> frombuffer_int16 (constant_frame 1024 0x40 0x01) = Inr (replicate 1024 320)
   \<and> calculate_audio_level (constant_frame 1024 0x40 0x01) = 1
   \<and> calculate_audio_level (constant_frame 1024 0xE8 0x03) = 0
   \<and> \<not> calculate_audio_level (constant_frame 1024 0x40 0x01)
         \<le> calculate_audio_level (constant_frame 1024 0xE8 0x03)"
proof -
  have a: "rms_amplitude (replicate 1024 320) = 320"
    and b: "rms_amplitude (replicate 1024 1000) = 1000"
    by (simp_all add: rms_amplitude_replicate)
  have c: "calculate_audio_level (constant_frame 1024 0x40 0x01) = 1"
    by (simp add: calculate_audio_level_def frombuffer_constant_frame rms_of_replicate
          level_of_rms_def np_sqrt_def fl_less_def fl_rescale_def py_min_def noise_threshold_def)
  show ?thesis
    using a b c level_1000 by (simp add: frombuffer_constant_frame)
qed

text \<open>
  Lines 276 to 286 alone are monotone in the value of \<open>rms\<close>; the order is lost where
  \<open>rms\<close> is computed.
\<close>

lemma py_min_Finite: "py_min 1 (Finite a) = min 1 a"
  by (simp add: py_min_def min_def)

lemma level_of_rms_mono:
  assumes "300 \<le> x" and "x \<le> y"
  shows "level_of_rms (Finite x) \<le> level_of_rms (Finite y)"
proof -
  have "(x - 300) / 32468 \<le> (y - 300) / 32468"
    using assms by (simp add: divide_right_mono)
  then have "min 1 ((x - 300) / 32468) \<le> min 1 ((y - 300) / 32468)"
    by (simp add: min_def)
  moreover have "0 \<le> min 1 ((x - 300) / 32468)"
    using assms by simp
  ultimately have "(min 1 ((x - 300) / 32468)) powr 0.7 \<le> (min 1 ((y - 300) / 32468)) powr 0.7"
    by (intro powr_mono2) simp_all
  then show ?thesis
    using assms
    by (simp add: level_of_rms_def fl_less_def fl_rescale_def py_min_Finite noise_threshold_def)
qed

subsection \<open>Warm-up\<close>

text \<open>
  Claim C8: \<open>pre_initialize\<close> never raises to its caller, whatever the device operations
  do; it returns false when the subsystem cannot be initialised or when opening, reading,
  stopping or closing the test stream fails, and it returns true only after it has opened a
  test stream, read from it once and closed it.
\<close>

theorem pre_initialize_never_raises:
  "\<exists>b r' w'. pre_initialize r w oc = Ret b (r', w')
     \<and> (b \<longleftrightarrow> (pyaudio r \<noteq> None \<or> init_ok oc) \<and> open_ok oc \<and> read_result oc \<noteq> None
                \<and> stop_ok oc \<and> close_ok oc)
     \<and> (b \<longrightarrow> trace w' = trace w @ [Opened (next_stream w), ReadFrom (next_stream w),
                                      Stopped (next_stream w), Closed (next_stream w)]
              \<and> next_stream w \<notin> set (open_streams w'))"
  by (cases "pyaudio r"; cases "read_result oc")
     (auto simp: pre_initialize_def test_stream_def dev_defs)

theorem pre_initialize_never_raises_witness:
  "\<exists>r' w'. pre_initialize rec0 empty_world all_ok = Ret True (r', w')
     \<and> trace w' = [Opened 0, ReadFrom 0, Stopped 0, Closed 0] \<and> open_streams w' = []"
  using pre_initialize_never_raises [of rec0 empty_world all_ok]
  by (auto simp: rec0_def AudioRecorder_def empty_world_def all_ok_def pre_initialize_def
        test_stream_def dev_defs)

subsection \<open>Starting\<close>

text \<open>
  Claim C6: in every state whose recording flag is true, \<open>start_recording\<close> returns false
  and leaves the whole state as it was, the frames of the running session included.
\<close>

theorem start_while_recording_rejected:
  "is_recording r \<Longrightarrow> start_recording r w max_secs callback_fn level_cb oc = Ret False (r, w)"
  by (simp add: start_recording_def)

theorem start_while_recording_rejected_witness:
  "is_recording (rec0\<lparr>stream := Some 0, frames := [[1, 0], [2, 0]], is_recording := True\<rparr>)
   \<and> start_recording (rec0\<lparr>stream := Some 0, frames := [[1, 0], [2, 0]], is_recording := True\<rparr>)
        empty_world (Some 5) (Some Returns) (Some Returns) all_ok
      = Ret False (rec0\<lparr>stream := Some 0, frames := [[1, 0], [2, 0]], is_recording := True\<rparr>,
                   empty_world)"
  using start_while_recording_rejected
    [of "rec0\<lparr>stream := Some 0, frames := [[1, 0], [2, 0]], is_recording := True\<rparr>"
        empty_world "Some 5" "Some Returns" "Some Returns" all_ok]
  by simp

lemma start_recording_max_seconds:
  "max_seconds (fst (res_state (start_recording r w max_secs callback_fn level_cb oc))) =
     (if is_recording r then max_seconds r
      else case max_secs of None \<Rightarrow> max_seconds r | Some n \<Rightarrow> if n \<noteq> 0 then n else max_seconds r)"
  by (auto simp: start_recording_def open_and_spawn_def dev_defs Let_def
           split: option.splits callback.splits)



lemma zero_limit_would_stop:
  assumes "is_recording r" and "\<not> flag_cleared t" and "max_seconds r = 0" and "0 < elapsed t"
  shows "record_loop r w fc (t # ts) = Some (r, w)"
  using assms by simp




text \<open>A negative argument is stored as it is; a limit of zero would end the loop at once.\<close>

lemma negative_max_seconds_is_stored:
  "max_seconds (fst (res_state (start_recording rec0 empty_world (Some (- 1)) None None all_ok)))
     = - 1"
  by (simp add: start_recording_max_seconds rec0_def AudioRecorder_def)

text \<open>A pass of the loop ends the recording only when the elapsed time exceeds the limit.\<close>

lemma loop_continues_below_limit:
  assumes "is_recording r" and "\<not> flag_cleared t" and "elapsed t \<le> real_of_int (max_seconds r)"
    and "stream r = Some h" and "read_data t = Some d" and "level_callback r = None"
  shows "record_loop r w fc (t # ts) =
           record_loop (r\<lparr>frames := frames r @ [d]\<rparr>) (w\<lparr>trace := trace w @ [ReadFrom h]\<rparr>)
             (fc + 1) ts"
  using assms by (simp add: dev_defs Let_def)

text \<open>
  Claim C10: \<open>start_recording\<close> clears the frames before it opens the stream. When
  the open raises, the call returns false, the frames of the earlier session are gone and a
  following \<open>save_wav\<close> returns false.
\<close>

theorem failed_open_clears_frames:
  assumes "\<not> is_recording r" and "pyaudio r \<noteq> None \<or> init_ok oc" and "\<not> open_ok oc"
  shows "\<exists>r'. start_recording r w max_secs callback_fn level_cb oc = Ret False (r', w)
           \<and> frames r' = [] \<and> \<not> is_recording r'
           \<and> (\<forall>file_path wo. save_wav r' w file_path wo = Ret False (r', w))"
  using assms
  by (auto simp: start_recording_def open_and_spawn_def dev_defs Let_def save_wav_def
           split: option.splits)

theorem failed_open_clears_frames_witness:
  "\<not> is_recording (rec0\<lparr>frames := [[1, 0], [2, 0]]\<rparr>)
   \<and> frames (rec0\<lparr>frames := [[1, 0], [2, 0]]\<rparr>) = [[1, 0], [2, 0]]
   \<and> pyaudio (rec0\<lparr>frames := [[1, 0], [2, 0]]\<rparr>) \<noteq> None
   \<and> \<not> open_ok no_device
   \<and> (\<exists>r'. start_recording (rec0\<lparr>frames := [[1, 0], [2, 0]]\<rparr>) empty_world None None None no_device
              = Ret False (r', empty_world)
          \<and> frames r' = []
          \<and> save_wav r' empty_world ''out.wav'' wave_ok = Ret False (r', empty_world))"
  using failed_open_clears_frames
     [of "rec0\<lparr>frames := [[1, 0], [2, 0]]\<rparr>" no_device empty_world None None None]
  by (auto simp: rec0_def AudioRecorder_def no_device_def all_ok_def)

subsection \<open>Saving\<close>

text \<open>
  Claim C7: in every state whose frame sequence is empty, \<open>save_wav\<close> returns false and
  creates no file: the files are as they were.
\<close>

theorem save_empty_fails:
  "frames r = [] \<Longrightarrow> save_wav r w file_path wo = Ret False (r, w)"
  by (simp add: save_wav_def)

theorem save_empty_fails_witness:
  "frames rec0 = []
   \<and> save_wav rec0 empty_world ''out.wav'' wave_ok = Ret False (rec0, empty_world)
   \<and> files empty_world ''out.wav'' = None"
  using save_empty_fails [of rec0 empty_world "''out.wav''" wave_ok]
  by (simp add: rec0_def AudioRecorder_def empty_world_def)

text \<open>
  Claim C3 as it is written: for every non-empty frame sequence \<open>save_wav\<close> returns true
  and produces the WAV file. It fails where the \<open>wave\<close> module raises, which the source
  catches to return false: here the file cannot be opened for writing.
\<close>

theorem save_wav_can_fail:
  "frames (rec0\<lparr>frames := [[1, 0]]\<rparr>) \<noteq> []
   \<and> save_wav (rec0\<lparr>frames := [[1, 0]]\<rparr>) empty_world ''out.wav''
         (wave_ok\<lparr>wave_open_ok := False\<rparr>)
       = Ret False (rec0\<lparr>frames := [[1, 0]]\<rparr>, empty_world)"
  by (simp add: save_wav_def write_wav_def wave_ok_def)

text \<open>
  Claim C3, amended: for every non-empty frame sequence, when the configured channel count is
  at least one, the configured sample rate is positive and no call of the \<open>wave\<close> module
  raises, \<open>save_wav\<close> returns true and the file at the path declares the configured
  channels, the configured sample rate and a sample width of two bytes (16 bits), and its
  payload is the concatenation of the frames in capture order, as long as the frames
  together.
\<close>

theorem save_wav_round_trip:
  assumes "frames r \<noteq> []" and "1 \<le> channels r" and "0 < sample_rate r"
    and "wave_open_ok wo" and "wave_write_ok wo" and "wave_close_ok wo"
  shows "save_wav r w file_path wo =
           Ret True (r, w\<lparr>files := (files w)(file_path \<mapsto>
              WavFile \<lparr>nchannels = channels r, sampwidth = 2, framerate = sample_rate r,
                       payload = concat (frames r)\<rparr>)\<rparr>)
         \<and> length (concat (frames r)) = sum_list (map length (frames r))"
  using assms by (simp add: save_wav_def write_wav_def length_concat)

theorem save_wav_round_trip_witness:
  "frames (rec0\<lparr>frames := [[1, 0], [2, 0]]\<rparr>) \<noteq> []
   \<and> 1 \<le> channels (rec0\<lparr>frames := [[1, 0], [2, 0]]\<rparr>)
   \<and> 0 < sample_rate (rec0\<lparr>frames := [[1, 0], [2, 0]]\<rparr>)
   \<and> wave_open_ok wave_ok \<and> wave_write_ok wave_ok \<and> wave_close_ok wave_ok
   \<and> files (snd (res_state
        (save_wav (rec0\<lparr>frames := [[1, 0], [2, 0]]\<rparr>) empty_world ''out.wav'' wave_ok))) ''out.wav''
       = Some (WavFile \<lparr>nchannels = 1, sampwidth = 2, framerate = 16000, payload = [1, 0, 2, 0]\<rparr>)"
  using save_wav_round_trip [of "rec0\<lparr>frames := [[1, 0], [2, 0]]\<rparr>" wave_ok empty_world "''out.wav''"]
  by (simp add: rec0_def AudioRecorder_def wave_ok_def)

text \<open>In every other case with frames, \<open>save_wav\<close> returns false.\<close>

lemma save_wav_failure:
  assumes "frames r \<noteq> []"
    and "\<not> (1 \<le> channels r \<and> 0 < sample_rate r
            \<and> wave_open_ok wo \<and> wave_write_ok wo \<and> wave_close_ok wo)"
  shows "\<exists>w'. save_wav r w file_path wo = Ret False (r, w')"
  using assms by (auto simp: save_wav_def write_wav_def Let_def)

subsection \<open>Streams across calls\<close>

text \<open>
  Claim C1: at most one input stream is open at a time, and a true recording flag comes with
  an open stream; in particular, after the recording thread has left its loop by itself (the
  maximum duration, or a failed read), a following \<open>start_recording\<close> does not open a new
  stream while the earlier one is still open.

  The source does open one. \<open>_record\<close> clears the flag and leaves the stream open;
  \<open>stop_recording\<close>, the only place that closes a stream, returns at once when the flag is
  clear; the next \<open>start_recording\<close> stores a new stream over the old one. In both runs
  below stream 0 and stream 1 are open together at the end.
\<close>

theorem second_stream_opened_while_first_open:
  "open_streams (snd (run (rec0, empty_world) leak_by_duration)) = [1, 0]
   \<and> stream (fst (run (rec0, empty_world) leak_by_duration)) = Some 1
   \<and> open_streams (snd (run (rec0, empty_world) leak_by_read_error)) = [1, 0]
   \<and> stream (fst (run (rec0, empty_world) leak_by_read_error)) = Some 1"
  by (simp add: run_def leak_by_duration_def leak_by_read_error_def rec0_def AudioRecorder_def
        empty_world_def all_ok_def start_recording_def open_and_spawn_def stop_recording_def
        record_thread_def extra_read_def dev_defs Let_def)

text \<open>
  The sibling path: a recording ended by \<open>stop_recording\<close> has its stream closed, one
  whose thread ended by itself has not.
\<close>

lemma stop_closes_stream:
  "open_streams (snd (run (rec0, empty_world) [Start None None None all_ok, Stop all_ok])) = []"
  by (simp add: run_def rec0_def AudioRecorder_def empty_world_def all_ok_def
        start_recording_def open_and_spawn_def stop_recording_def extra_read_def dev_defs Let_def)

lemma thread_end_leaves_stream_open:
  "open_streams (snd (run (rec0, empty_world)
      [Start (Some 1) None None all_ok,
       ThreadRuns (Some [0, 0]) [\<lparr>flag_cleared = False, elapsed = 1.5, read_data = Some [0, 0]\<rparr>],
       Stop all_ok])) = [0]"
  by (simp add: run_def rec0_def AudioRecorder_def empty_world_def all_ok_def
        start_recording_def open_and_spawn_def stop_recording_def record_thread_def
        extra_read_def dev_defs Let_def)

text \<open>
  The other half of C1 holds between calls: whenever the flag is true, the recorder's
  stream is open.
\<close>

lemma start_keeps_flag_has_stream:
  "flag_has_stream (r, w) \<Longrightarrow>
   flag_has_stream (res_state (start_recording r w max_secs callback_fn level_cb oc))"
  by (auto simp: flag_has_stream_def start_recording_def open_and_spawn_def dev_defs Let_def
           split: option.splits callback.splits)

lemma stop_gives_flag_has_stream: "flag_has_stream (res_state (stop_recording r w oc))"
  by (auto simp: flag_has_stream_def stop_recording_def extra_read_def dev_defs Let_def
           split: option.splits prod.splits)

lemma thread_gives_flag_has_stream:
  "record_thread r w first ts = Some (r', w') \<Longrightarrow> flag_has_stream (r', w')"
  by (auto simp: flag_has_stream_def record_thread_def split: option.splits res.splits)

lemma do_action_keeps_flag_has_stream:
  assumes "flag_has_stream s"
  shows "flag_has_stream (do_action s a)"
proof (cases s)
  case (Pair r w)
  show ?thesis
  proof (cases a)
    case (Start m c l oc)
    then show ?thesis using Pair assms start_keeps_flag_has_stream by simp
  next
    case (Stop oc)
    then show ?thesis using Pair stop_gives_flag_has_stream by simp
  next
    case (ThreadRuns first ts)
    then show ?thesis using Pair assms thread_gives_flag_has_stream
      by (auto split: list.splits option.splits)
  qed
qed

lemma run_keeps_flag_has_stream:
  "flag_has_stream s \<Longrightarrow> flag_has_stream (run s acts)"
  unfolding run_def
  by (induction acts arbitrary: s) (simp_all add: do_action_keeps_flag_has_stream)

end
